theory Spec2Isabelle
  imports Main
begin

section \<open>Python values used by az-vm-pool.py\<close>

text \<open>
  The exceptions the modelled code can raise. \<open>ValueError\<close> comes from the two-way
  unpacking of \<open>split\<close> and from \<open>int\<close>; \<open>NameError\<close> from a global name that
  is never bound; \<open>TypeError\<close> from a \<open>None\<close> where a string or list is needed;
  \<open>KeyError\<close> from a missing dictionary key; \<open>OverflowError\<close> from date arithmetic
  leaving the supported years; \<open>CLIError\<close> stands for whatever
  \<open>APPLICATION.execute\<close> raises when the control plane refuses a call.
\<close>

datatype error = ValueError | NameError | TypeError | KeyError | OverflowError | CLIError string

subsection \<open>Strings: \<open>str.split\<close>, \<open>str(int)\<close>, \<open>int(str)\<close>\<close>

text \<open>\<open>s.split(sep)\<close> for a one-character separator: one more part than separators.\<close>

fun split_on :: "char \<Rightarrow> string \<Rightarrow> string list" where
  "split_on c [] = [[]]"
| "split_on c (x # xs) =
     (if x = c then [] # split_on c xs
      else (case split_on c xs of [] \<Rightarrow> [[x]] | p # ps \<Rightarrow> (x # p) # ps))"

definition digit_char :: "nat \<Rightarrow> char" where
  "digit_char d = char_of (48 + d)"

definition is_digit :: "char \<Rightarrow> bool" where
  "is_digit c = (48 \<le> (of_char c :: nat) \<and> (of_char c :: nat) \<le> 57)"

definition digit_val :: "char \<Rightarrow> nat" where
  "digit_val c = of_char c - 48"

text \<open>The decimal digits of a natural number, most significant first, no leading zero.\<close>

fun digits_of_nat :: "nat \<Rightarrow> string" where
  "digits_of_nat n =
     (if n < 10 then [digit_char n] else digits_of_nat (n div 10) @ [digit_char (n mod 10)])"

declare digits_of_nat.simps [simp del]

text \<open>What \<open>"{0}".format(i)\<close> and \<open>"{:d}".format(i)\<close> print for an integer.\<close>

definition str_of_int :: "int \<Rightarrow> string" where
  "str_of_int i = (if i < 0 then CHR ''-'' # digits_of_nat (nat (- i)) else digits_of_nat (nat i))"

text \<open>
  \<open>int(s)\<close> on an ASCII string, as Python 3 reads it: white space around the number is
  dropped, one sign is allowed, then decimal digits, where single underscores may stand
  between digits. Everything else is a \<open>ValueError\<close>.
\<close>

definition is_space :: "char \<Rightarrow> bool" where
  "is_space c = ((of_char c :: nat) \<in> {9, 10, 11, 12, 13, 28, 29, 30, 31, 32})"

definition strip :: "string \<Rightarrow> string" where
  "strip s = rev (dropWhile is_space (rev (dropWhile is_space s)))"

fun digits_ok :: "string \<Rightarrow> bool" where
  "digits_ok [] = False"
| "digits_ok [c] = is_digit c"
| "digits_ok (c # d # r) =
     (is_digit c \<and> (if d = CHR ''_'' then digits_ok r else digits_ok (d # r)))"

definition digits_value :: "string \<Rightarrow> nat" where
  "digits_value s = foldl (\<lambda>acc c. 10 * acc + digit_val c) 0 (filter is_digit s)"

definition py_int :: "string \<Rightarrow> error + int" where
  "py_int s =
     (let t = strip s;
          neg = (case t of [] \<Rightarrow> False | c # _ \<Rightarrow> c = CHR ''-'');
          body = (case t of [] \<Rightarrow> [] | c # r \<Rightarrow> if c = CHR ''-'' \<or> c = CHR ''+'' then r else t)
      in if digits_ok body
         then Inr (if neg then - int (digits_value body) else int (digits_value body))
         else Inl ValueError)"

section \<open>Command-line arguments and constants\<close>

text \<open>
  The \<open>args\<close> namespace. \<open>num_vms\<close> and \<open>vm_size\<close> are read by \<open>create-pool\<close> only,
  for which \<open>main\<close> refuses to run without them; \<open>pool_directory\<close> and \<open>location\<close>
  may be \<open>None\<close>.
\<close>

record args =
  resource_group :: string
  num_vms :: int
  vm_size :: string
  sas_expiry_days :: int
  pool_directory :: "string option"
  no_wait :: bool
  vm_image :: string
  force :: bool
  location :: "string option"
  ssh_key_directory :: string
  vm_secrets_directory :: string
  os_container_name :: string
  data_container_name :: string
  ssh_key_container_name :: string
  vm_secrets_container_name :: string
  container_sas_prefix :: string
  pool_file_prefix :: string
  setup_directory :: string
  deploy_directory :: string
  task_directory :: string
  setup_script :: string
  deploy_script :: string
  task_script :: string
  vm_user :: string
  storage_redundancy :: string
  storage_account_type :: string

definition CLEAN_EXIT :: int where "CLEAN_EXIT = 0"
definition USER_EXIT :: int where "USER_EXIT = 1"
definition ERROR_EXIT :: int where "ERROR_EXIT = 2"

text \<open>The status the process ends with after \<open>sys.exit(arg)\<close>: zero when there is no argument.\<close>

definition exit_status :: "int option \<Rightarrow> int" where
  "exit_status code = (case code of None \<Rightarrow> 0 | Some n \<Rightarrow> n)"

text \<open>The arguments as \<open>main\<close> completes them ("some default arguments that we won't clutter up the command line with").\<close>

definition main_args ::
  "string \<Rightarrow> int \<Rightarrow> string \<Rightarrow> int \<Rightarrow> string option \<Rightarrow> bool \<Rightarrow> string \<Rightarrow> bool \<Rightarrow> string option \<Rightarrow> args" where
  "main_args rg n vmsize days dir nowait img frc loc =
     \<lparr> resource_group = rg, num_vms = n, vm_size = vmsize, sas_expiry_days = days,
       pool_directory = dir, no_wait = nowait, vm_image = img, force = frc, location = loc,
       ssh_key_directory = ''private-pool-ssh-keys'',
       vm_secrets_directory = ''secrets'',
       os_container_name = ''vhds'',
       data_container_name = ''data'',
       ssh_key_container_name = ''sshkeys'',
       vm_secrets_container_name = ''vmsecrets'',
       container_sas_prefix = ''sas_storage_container'',
       pool_file_prefix = ''azure_vm_pool'',
       setup_directory = ''setup'',
       deploy_directory = ''deploy'',
       task_directory = ''task'',
       setup_script = ''run.sh'',
       deploy_script = ''run.sh'',
       task_script = ''run.sh'',
       vm_user = ''vm-admin'',
       storage_redundancy = ''Standard_LRS'',
       storage_account_type = ''Storage'' \<rparr>"

section \<open>Naming scheme\<close>

text \<open>
  \<^verbatim>\<open>
  def number_from_name(vm_name):
      stem, number = vm_name.split("-")
      return int(number)

  def name_from_number(number, args):
      return "{0}-{1}".format(args.resource_group, number)
  \<close>
  The unpacking needs exactly two parts, that is exactly one \<open>-\<close> in the name.
\<close>

definition number_from_name :: "string \<Rightarrow> error + int" where
  "number_from_name vm_name =
     (case split_on CHR ''-'' vm_name of
        [stem, number] \<Rightarrow> py_int number
      | _ \<Rightarrow> Inl ValueError)"

definition name_from_number :: "int \<Rightarrow> args \<Rightarrow> string" where
  "name_from_number number args = resource_group args @ ''-'' @ str_of_int number"

text \<open>
  \<^verbatim>\<open>
  def next_vm_name(vms, args):
      vm_numbers = sorted([vm_number_from_name(vm["name"]) for vm in vms])
      for vm_number in vm_numbers:
          if(vm_numbers.index(vm_number) != vm_number):
              return name_from_number(vm_number - 1, args)
      return name_from_number(len(vm_numbers) + 1, args)
  \<close>
  No file of the repository binds \<open>vm_number_from_name\<close>, so the helper is a parameter
  of the model: \<open>unbound_name\<close> is what Python does with it (the call raises
  \<open>NameError\<close>), \<open>number_from_name\<close> is what the name suggests. The comprehension
  stops at the first exception; \<open>vms\<close> is taken as the list of the VMs' names.
\<close>

fun collect :: "('a \<Rightarrow> error + 'b) \<Rightarrow> 'a list \<Rightarrow> error + 'b list" where
  "collect f [] = Inr []"
| "collect f (x # xs) =
     (case f x of
        Inl e \<Rightarrow> Inl e
      | Inr y \<Rightarrow> (case collect f xs of Inl e \<Rightarrow> Inl e | Inr ys \<Rightarrow> Inr (y # ys)))"

definition unbound_name :: "string \<Rightarrow> error + int" where
  "unbound_name vm_name = Inl NameError"

text \<open>\<open>xs.index(v)\<close> for a \<open>v\<close> that occurs in \<open>xs\<close>: the position of its first occurrence.\<close>

fun index_of :: "int list \<Rightarrow> int \<Rightarrow> int" where
  "index_of [] v = 0"
| "index_of (x # xs) v = (if x = v then 0 else 1 + index_of xs v)"

definition next_vm_name ::
  "(string \<Rightarrow> error + int) \<Rightarrow> string list \<Rightarrow> args \<Rightarrow> error + string" where
  "next_vm_name vm_number_from_name vms args =
     (case collect vm_number_from_name vms of
        Inl e \<Rightarrow> Inl e
      | Inr numbers \<Rightarrow>
          (let vm_numbers = sort numbers in
           case find (\<lambda>vm_number. index_of vm_numbers vm_number \<noteq> vm_number) vm_numbers of
             Some vm_number \<Rightarrow> Inr (name_from_number (vm_number - 1) args)
           | None \<Rightarrow> Inr (name_from_number (int (length vm_numbers) + 1) args)))"

section \<open>The environment: control plane, local shell, operator, clock\<close>

text \<open>
  A VM description as \<open>vm list --show-details\<close> returns it; only the keys the script reads
  are kept (\<open>vm["location"]\<close> is the field \<open>vm_location\<close>, \<open>vm["hardwareProfile"]["vmSize"]\<close>
  the field \<open>vmSize\<close>).
\<close>

record vm =
  name :: string
  vm_location :: string
  vmSize :: string
  provisioningState :: string
  powerState :: string

text \<open>
  The \<open>result\<close> of \<open>APPLICATION.execute\<close>: \<open>None\<close>, a string, a list of VM
  descriptions, or a dictionary of scalar fields.
\<close>

datatype field = FNone | FBool bool | FStr string

datatype reply = RNone | RStr string | RVms "vm list" | RDict "(string \<times> field) list"

text \<open>\<open>datetime\<close>, with the date kept as its proleptic Gregorian ordinal (\<open>toordinal()\<close>).\<close>

record datetime =
  ordinal :: int
  hour :: nat
  minute :: nat
  second :: nat
  microsecond :: nat

text \<open>
  Everything the script does to the outside is an event of the trace, in the order it
  happens: a control-plane call (its argument list), a local subprocess (its command
  line), a log line (the format string of the source and its arguments, the clock readings
  left out), the VM table, the confirmation prompt, a directory creation and a file write.
\<close>

datatype event =
    Az "string list"
  | Sub "string list"
  | Warn string "string list"
  | Table "vm list"
  | Prompt string "string list"
  | MakeDirs string
  | WriteFile string string

text \<open>
  The environment answers from the history so far: \<open>az\<close> is the result of
  \<open>APPLICATION.execute\<close> or the exception it raises, \<open>shell\<close> the exit status of
  \<open>subprocess.call\<close>, \<open>typed\<close> what the operator types at a prompt, \<open>utcnow\<close>
  the clock, \<open>path_exists\<close> is \<open>os.path.exists\<close>.
\<close>

record world =
  az :: "event list \<Rightarrow> string list \<Rightarrow> error + reply"
  shell :: "event list \<Rightarrow> string list \<Rightarrow> int"
  typed :: "event list \<Rightarrow> string"
  utcnow :: "event list \<Rightarrow> datetime"
  path_exists :: "event list \<Rightarrow> string \<Rightarrow> bool"

text \<open>
  A run ends by returning, by an exception that nothing catches, or by \<open>sys.exit\<close> (with
  its argument, if any). The trace is kept in each case.
\<close>

datatype 'a outcome = Return 'a | Raise error | Exit "int option"

type_synonym 'a action = "world \<Rightarrow> event list \<Rightarrow> 'a outcome \<times> event list"

definition done_with :: "'a \<Rightarrow> 'a action" where
  "done_with a w tr = (Return a, tr)"

definition raise :: "error \<Rightarrow> 'a action" where
  "raise e w tr = (Raise e, tr)"

definition sys_exit :: "int option \<Rightarrow> 'a action" where
  "sys_exit code w tr = (Exit code, tr)"

definition bnd :: "'a action \<Rightarrow> ('a \<Rightarrow> 'b action) \<Rightarrow> 'b action" where
  "bnd m f w tr =
     (case m w tr of
        (Return a, tr') \<Rightarrow> f a w tr'
      | (Raise e, tr') \<Rightarrow> (Raise e, tr')
      | (Exit code, tr') \<Rightarrow> (Exit code, tr'))"

definition and_then :: "'a action \<Rightarrow> 'b action \<Rightarrow> 'b action" where
  "and_then m n = bnd m (\<lambda>_. n)"

text \<open>A list comprehension \<open>[f(x) for x in xs]\<close>: left to right, stopped by the first exception.\<close>

fun for_each :: "('a \<Rightarrow> 'b action) \<Rightarrow> 'a list \<Rightarrow> 'b list action" where
  "for_each f [] = done_with []"
| "for_each f (x # xs) = bnd (f x) (\<lambda>y. bnd (for_each f xs) (\<lambda>ys. done_with (y # ys)))"

definition execute :: "string list \<Rightarrow> reply action" where
  "execute command_list w tr =
     (case az w tr command_list of
        Inl e \<Rightarrow> (Raise e, tr @ [Az command_list])
      | Inr result \<Rightarrow> (Return result, tr @ [Az command_list]))"

definition subprocess_call :: "string list \<Rightarrow> int action" where
  "subprocess_call command w tr = (Return (shell w tr command), tr @ [Sub command])"

definition warning :: "string \<Rightarrow> string list \<Rightarrow> unit action" where
  "warning fmt xs w tr = (Return (), tr @ [Warn fmt xs])"

definition print_vm_table :: "vm list \<Rightarrow> unit action" where
  "print_vm_table vms w tr = (Return (), tr @ [Table vms])"

definition get_input :: "string \<Rightarrow> string list \<Rightarrow> string action" where
  "get_input fmt xs w tr = (Return (typed w tr), tr @ [Prompt fmt xs])"

definition datetime_utcnow :: "datetime action" where
  "datetime_utcnow w tr = (Return (utcnow w tr), tr)"

text \<open>
  \<^verbatim>\<open>
  def ensure_exists(directory):
      if(directory and not os.path.exists(directory)):
          os.makedirs(directory)
  \<close>
\<close>

definition ensure_exists :: "string \<Rightarrow> unit action" where
  "ensure_exists directory w tr =
     (if directory \<noteq> [] \<and> \<not> path_exists w tr directory
      then (Return (), tr @ [MakeDirs directory])
      else (Return (), tr))"

text \<open>\<open>os.path.join\<close> of two parts (posixpath); a \<open>None\<close> part raises.\<close>

definition path_join :: "string \<Rightarrow> string \<Rightarrow> string" where
  "path_join a b =
     (if b \<noteq> [] \<and> hd b = CHR ''/'' then b
      else if a = [] \<or> last a = CHR ''/'' then a @ b
      else a @ ''/'' @ b)"

definition path_join_opt :: "string option \<Rightarrow> string \<Rightarrow> string action" where
  "path_join_opt a b = (case a of None \<Rightarrow> raise TypeError | Some d \<Rightarrow> done_with (path_join d b))"

text \<open>Reading a reply: subscripting, truth value, and \<open>"{0}".format\<close> of a field.\<close>

definition get_item :: "reply \<Rightarrow> string \<Rightarrow> field action" where
  "get_item result key =
     (case result of
        RDict kvs \<Rightarrow> (case map_of kvs key of None \<Rightarrow> raise KeyError | Some v \<Rightarrow> done_with v)
      | _ \<Rightarrow> raise TypeError)"

fun truthy :: "field \<Rightarrow> bool" where
  "truthy FNone = False"
| "truthy (FBool b) = b"
| "truthy (FStr s) = (s \<noteq> [])"

fun format_field :: "field \<Rightarrow> string" where
  "format_field FNone = ''None''"
| "format_field (FBool b) = (if b then ''True'' else ''False'')"
| "format_field (FStr s) = s"

section \<open>Resource provisioner\<close>

text \<open>
  \<open>vm_pool_command\<close> appends the resource-group option to the option list and runs the
  command; every caller hands it a fresh list.
\<close>

definition vm_pool_command :: "string list \<Rightarrow> string list \<Rightarrow> args \<Rightarrow> reply action" where
  "vm_pool_command command_list option_list args =
     execute (command_list @ option_list @ [''--resource-group='' @ resource_group args])"

definition resource_group_exists :: "args \<Rightarrow> bool action" where
  "resource_group_exists args =
     bnd (execute [''group'', ''show'', ''--name='' @ resource_group args])
       (\<lambda>result. done_with (result \<noteq> RNone))"

definition format_opt :: "string option \<Rightarrow> string" where
  "format_opt v = (case v of None \<Rightarrow> ''None'' | Some s \<Rightarrow> s)"

definition create_resource_group :: "args \<Rightarrow> reply action" where
  "create_resource_group args =
     execute [''group'', ''create'', ''--name='' @ resource_group args,
              ''--location='' @ format_opt (location args)]"

text \<open>
  \<open>get_vms\<close> answers the VM list. A reply that is no list fails at the caller's first
  \<open>len(vms)\<close> or iteration; the model raises the \<open>TypeError\<close> here.
\<close>

definition get_vms :: "args \<Rightarrow> vm list action" where
  "get_vms args =
     bnd (vm_pool_command [''vm'', ''list''] [''--show-details''] args)
       (\<lambda>vms. case vms of RVms l \<Rightarrow> done_with l | _ \<Rightarrow> raise TypeError)"

definition get_resource_group_location :: "args \<Rightarrow> field action" where
  "get_resource_group_location args =
     bnd (execute [''group'', ''show'', ''--name='' @ resource_group args])
       (\<lambda>rg. get_item rg ''location'')"

definition create_virtual_network :: "args \<Rightarrow> reply action" where
  "create_virtual_network args =
     bnd (get_resource_group_location args) (\<lambda>loc.
     vm_pool_command [''network'', ''vnet'', ''create'']
       [''--name='' @ resource_group args, ''--location='' @ format_field loc,
        ''--subnet-name='' @ resource_group args] args)"

definition create_storage_account :: "args \<Rightarrow> reply action" where
  "create_storage_account args =
     bnd (get_resource_group_location args) (\<lambda>loc.
     vm_pool_command [''storage'', ''account'', ''create'']
       [''--name='' @ resource_group args, ''--location='' @ format_field loc,
        ''--kind='' @ storage_account_type args, ''--sku='' @ storage_redundancy args] args)"

definition public_ip_exists :: "string \<Rightarrow> args \<Rightarrow> bool action" where
  "public_ip_exists ip_name args =
     bnd (vm_pool_command [''network'', ''public-ip'', ''show''] [''--name='' @ ip_name] args)
       (\<lambda>result. done_with (result \<noteq> RNone))"

definition create_public_ip :: "string \<Rightarrow> args \<Rightarrow> reply action" where
  "create_public_ip ip_name args =
     bnd (get_resource_group_location args) (\<lambda>loc.
     vm_pool_command [''network'', ''public-ip'', ''create'']
       [''--name='' @ ip_name, ''--location='' @ format_field loc, ''--dns-name='' @ ip_name] args)"

definition nic_exists :: "string \<Rightarrow> args \<Rightarrow> bool action" where
  "nic_exists nic_name args =
     bnd (vm_pool_command [''network'', ''nic'', ''show''] [''--name='' @ nic_name] args)
       (\<lambda>result. done_with (result \<noteq> RNone))"

definition create_nic :: "string \<Rightarrow> args \<Rightarrow> reply action" where
  "create_nic nic_name args =
     bnd (get_resource_group_location args) (\<lambda>loc.
     vm_pool_command [''network'', ''nic'', ''create'']
       [''--name='' @ nic_name, ''--location='' @ format_field loc,
        ''--vnet-name='' @ resource_group args, ''--subnet='' @ resource_group args,
        ''--public-ip-address='' @ nic_name] args)"

definition vm_os_disk_name :: "string \<Rightarrow> args \<Rightarrow> string" where
  "vm_os_disk_name vm_name args = vm_name @ ''_os_disk''"

definition pool_os_container_name :: "args \<Rightarrow> string" where
  "pool_os_container_name args = os_container_name args"

definition pool_data_container_name :: "args \<Rightarrow> string" where
  "pool_data_container_name args = data_container_name args"

definition pool_ssh_key_container_name :: "args \<Rightarrow> string" where
  "pool_ssh_key_container_name args = ssh_key_container_name args"

definition pool_vm_secrets_container_name :: "args \<Rightarrow> string" where
  "pool_vm_secrets_container_name args = vm_secrets_container_name args"

definition pool_storage_account_connection_string :: "args \<Rightarrow> field action" where
  "pool_storage_account_connection_string args =
     bnd (vm_pool_command [''storage'', ''account'', ''show-connection-string'']
            [''--name='' @ resource_group args] args)
       (\<lambda>result. get_item result ''connectionString'')"

definition vm_os_disk_blob_exists :: "string \<Rightarrow> args \<Rightarrow> field action" where
  "vm_os_disk_blob_exists vm_name args =
     bnd (pool_storage_account_connection_string args) (\<lambda>connection_string.
     bnd (execute [''storage'', ''blob'', ''exists'',
                   ''--name='' @ vm_os_disk_name vm_name args,
                   ''--container-name='' @ pool_os_container_name args,
                   ''--connection-string='' @ format_field connection_string])
       (\<lambda>result. get_item result ''exists''))"

definition delete_vm_os_disk_blob :: "string \<Rightarrow> args \<Rightarrow> unit action" where
  "delete_vm_os_disk_blob vm_name args =
     bnd (pool_storage_account_connection_string args) (\<lambda>connection_string.
     bnd (execute [''storage'', ''blob'', ''delete'',
                   ''--name='' @ vm_os_disk_name vm_name args @ ''.vhd'',
                   ''--container-name='' @ pool_os_container_name args,
                   ''--connection-string='' @ format_field connection_string])
       (\<lambda>result. done_with ()))"

definition create_pool_container :: "string \<Rightarrow> args \<Rightarrow> reply action" where
  "create_pool_container container_name args =
     bnd (pool_storage_account_connection_string args) (\<lambda>connection_string.
     execute [''storage'', ''container'', ''create'', ''--name='' @ container_name,
              ''--connection-string='' @ format_field connection_string])"

definition create_pool_data_container :: "args \<Rightarrow> unit action" where
  "create_pool_data_container args =
     bnd (create_pool_container (pool_data_container_name args) args) (\<lambda>_. done_with ())"

definition create_pool_ssh_key_container :: "args \<Rightarrow> unit action" where
  "create_pool_ssh_key_container args =
     bnd (create_pool_container (pool_ssh_key_container_name args) args) (\<lambda>_. done_with ())"

definition pool_container_exists :: "string \<Rightarrow> args \<Rightarrow> field action" where
  "pool_container_exists container_name args =
     bnd (pool_storage_account_connection_string args) (\<lambda>connection_string.
     bnd (execute [''storage'', ''container'', ''exists'', ''--name='' @ container_name,
                   ''--connection-string='' @ format_field connection_string])
       (\<lambda>result. get_item result ''exists''))"

definition delete_pool_os_container :: "args \<Rightarrow> unit action" where
  "delete_pool_os_container args =
     bnd (pool_storage_account_connection_string args) (\<lambda>connection_string.
     bnd (execute [''storage'', ''container'', ''delete'',
                   ''--name='' @ pool_os_container_name args,
                   ''--connection-string='' @ format_field connection_string])
       (\<lambda>result. done_with ()))"

text \<open>\<open>"{:s}".format(x)\<close> takes a string only: \<open>None\<close> and a Boolean raise.\<close>

definition format_s :: "field \<Rightarrow> string action" where
  "format_s v =
     (case v of FStr s \<Rightarrow> done_with s | FNone \<Rightarrow> raise TypeError | FBool b \<Rightarrow> raise ValueError)"

definition upload_blob :: "string \<Rightarrow> string \<Rightarrow> string \<Rightarrow> args \<Rightarrow> unit action" where
  "upload_blob container_name file_path blob_name args =
     bnd (pool_container_exists container_name args) (\<lambda>ex.
     bnd (if \<not> truthy ex
          then bnd (create_pool_container container_name args) (\<lambda>_. done_with ())
          else done_with ()) (\<lambda>_.
     bnd (pool_storage_account_connection_string args) (\<lambda>connection_string.
     bnd (format_s connection_string) (\<lambda>cs.
     bnd (execute [''storage'', ''blob'', ''upload'',
                   ''--container-name='' @ container_name, ''--file='' @ file_path,
                   ''--name='' @ blob_name, ''--connection-string='' @ cs])
       (\<lambda>result. done_with ())))))"

section \<open>Dates: \<open>timedelta(days = d)\<close> and \<open>strftime\<close>\<close>

text \<open>
  \<open>dt + timedelta(days = d)\<close> moves the date by \<open>d\<close> days and leaves the time of day alone.
  \<open>timedelta\<close> refuses more than 999999999 days, and the sum must stay within the years
  1 to 9999 (ordinals 1 to 3652059).
\<close>

definition add_days :: "datetime \<Rightarrow> int \<Rightarrow> error + datetime" where
  "add_days dt d =
     (if \<bar>d\<bar> > 999999999 then Inl OverflowError
      else if 0 < ordinal dt + d \<and> ordinal dt + d \<le> 3652059
      then Inr (dt\<lparr>ordinal := ordinal dt + d\<rparr>)
      else Inl OverflowError)"

text \<open>The calendar date of an ordinal, by the library's own algorithm (\<open>_ord2ymd\<close>).\<close>

definition days_before_month :: "int \<Rightarrow> int" where
  "days_before_month m = [0, 31, 59, 90, 120, 151, 181, 212, 243, 273, 304, 334] ! nat (m - 1)"

definition days_in_month :: "int \<Rightarrow> int" where
  "days_in_month m = [31, 28, 31, 30, 31, 30, 31, 31, 30, 31, 30, 31] ! nat (m - 1)"

definition ord2ymd :: "int \<Rightarrow> int \<times> int \<times> int" where
  "ord2ymd n0 =
     (let n400 = (n0 - 1) div 146097; r400 = (n0 - 1) mod 146097;
          n100 = r400 div 36524; r100 = r400 mod 36524;
          n4 = r100 div 1461; r4 = r100 mod 1461;
          n1 = r4 div 365; n = r4 mod 365;
          year = n400 * 400 + 1 + n100 * 100 + n4 * 4 + n1
      in if n1 = 4 \<or> n100 = 4 then (year - 1, 12, 31)
         else
           let leapyear = (n1 = 3 \<and> (n4 \<noteq> 24 \<or> n100 = 3));
               month = (n + 50) div 32;
               preceding = days_before_month month + (if month > 2 \<and> leapyear then 1 else 0)
           in if preceding > n
              then (year, month - 1,
                    n - (preceding - (days_in_month (month - 1)
                                       + (if month - 1 = 2 \<and> leapyear then 1 else 0))) + 1)
              else (year, month, n - preceding + 1))"

definition zero_pad :: "nat \<Rightarrow> nat \<Rightarrow> string" where
  "zero_pad width n = replicate (width - length (digits_of_nat n)) CHR ''0'' @ digits_of_nat n"

text \<open>\<open>"{:%Y-%m-%dT%H:%MZ}".format(dt)\<close>: seconds and microseconds are not printed.\<close>

definition format_minutes :: "datetime \<Rightarrow> string" where
  "format_minutes dt =
     (case ord2ymd (ordinal dt) of (y, m, d) \<Rightarrow>
        zero_pad 4 (nat y) @ ''-'' @ zero_pad 2 (nat m) @ ''-'' @ zero_pad 2 (nat d) @ ''T''
        @ zero_pad 2 (hour dt) @ '':'' @ zero_pad 2 (minute dt) @ ''Z'')"

section \<open>Secret and credential distributor\<close>

definition ssh_private_key_filename :: "args \<Rightarrow> string" where
  "ssh_private_key_filename args = pool_file_prefix args @ ''_'' @ resource_group args"

definition ssh_public_key_filename :: "args \<Rightarrow> string" where
  "ssh_public_key_filename args = ssh_private_key_filename args @ ''.pub''"

definition ssh_private_key_path :: "args \<Rightarrow> string" where
  "ssh_private_key_path args = path_join (ssh_key_directory args) (ssh_private_key_filename args)"

definition ssh_public_key_path :: "args \<Rightarrow> string" where
  "ssh_public_key_path args = path_join (ssh_key_directory args) (ssh_public_key_filename args)"

definition gen_ssh_keys :: "args \<Rightarrow> unit action" where
  "gen_ssh_keys args =
     bnd (ensure_exists (ssh_key_directory args)) (\<lambda>_.
     bnd (subprocess_call [''ssh-keygen'', ''-trsa'', ''-f'' @ ssh_private_key_path args,
                           ''-C'' @ vm_user args @ ''@'' @ resource_group args @ ''.az-vm-pool''])
       (\<lambda>result.
          if result \<noteq> 0
          then warning ''Did not create new SSH key pair for new VM pool.'' []
          else done_with ()))"

definition upload_ssh_keys :: "args \<Rightarrow> unit action" where
  "upload_ssh_keys args =
     bnd (create_pool_ssh_key_container args) (\<lambda>_.
     bnd (upload_blob (pool_ssh_key_container_name args) (ssh_private_key_path args)
            (ssh_private_key_filename args) args) (\<lambda>_.
     bnd (warning ''Private SSH key '{:s}' uploaded to '{:s}' in container '{:s}'.''
            [ssh_private_key_path args, ssh_private_key_filename args,
             pool_ssh_key_container_name args]) (\<lambda>_.
     bnd (upload_blob (pool_ssh_key_container_name args) (ssh_public_key_path args)
            (ssh_public_key_filename args) args) (\<lambda>_.
     warning ''Public SSH key '{:s}' uploaded to '{:s}' in container '{:s}'.''
       [ssh_public_key_path args, ssh_public_key_filename args,
        pool_ssh_key_container_name args]))))"

definition container_sas_filename :: "string \<Rightarrow> args \<Rightarrow> string" where
  "container_sas_filename container_name args =
     pool_file_prefix args @ ''_'' @ resource_group args @ ''_'' @ container_sas_prefix args
       @ ''_'' @ container_name @ ''.txt''"

definition upload_secret :: "string \<Rightarrow> string \<Rightarrow> args \<Rightarrow> unit action" where
  "upload_secret file_path blob_name args =
     bnd (upload_blob (pool_vm_secrets_container_name args) file_path blob_name args) (\<lambda>_.
     warning (''Secret '{:s}' uploaded to pool secrets container '{:s}' as '{:s}'' @ [CHR 0x27])
       [file_path, pool_vm_secrets_container_name args, blob_name])"

text \<open>
  \<open>open(file_path, 'w+')\<close> creates or empties the file; \<open>f.write(result)\<close> needs a string.
\<close>

definition write_file :: "string \<Rightarrow> reply \<Rightarrow> unit action" where
  "write_file file_path result w tr =
     (case result of
        RStr s \<Rightarrow> (Return (), tr @ [WriteFile file_path s])
      | _ \<Rightarrow> (Raise TypeError, tr @ [WriteFile file_path []]))"

definition lift :: "error + 'a \<Rightarrow> 'a action" where
  "lift r = (case r of Inl e \<Rightarrow> raise e | Inr a \<Rightarrow> done_with a)"

definition pool_data_container_sas :: "args \<Rightarrow> reply action" where
  "pool_data_container_sas args =
     bnd (pool_storage_account_connection_string args) (\<lambda>connection_string.
     bnd datetime_utcnow (\<lambda>now.
     bnd (lift (add_days now (sas_expiry_days args))) (\<lambda>expiry_datetime.
     bnd (execute [''storage'', ''container'', ''generate-sas'',
                   ''--name='' @ pool_data_container_name args,
                   ''--connection-string='' @ format_field connection_string,
                   ''--permissions=lrwd'', ''--https-only'',
                   ''--expiry='' @ format_minutes expiry_datetime]) (\<lambda>result.
     bnd (ensure_exists (vm_secrets_directory args)) (\<lambda>_.
     bnd (write_file (path_join (vm_secrets_directory args)
                        (container_sas_filename (pool_data_container_name args) args))
            result) (\<lambda>_.
     bnd (warning ''New SAS token for pool data container '{:s}' written to '{:s}'. SAS token expires on {:%Y-%m-%dT%H:%MZ}.''
            [pool_data_container_name args,
             path_join (vm_secrets_directory args)
               (container_sas_filename (pool_data_container_name args) args),
             format_minutes expiry_datetime]) (\<lambda>_.
     bnd (upload_secret
            (path_join (vm_secrets_directory args)
               (container_sas_filename (pool_data_container_name args) args))
            (container_sas_filename (pool_data_container_name args) args) args) (\<lambda>_.
     done_with result))))))))"

definition refresh_sas :: "args \<Rightarrow> unit action" where
  "refresh_sas args =
     bnd (warning ''Refreshing SAS tokens.'' []) (\<lambda>_.
     bnd (pool_data_container_sas args) (\<lambda>_. done_with ()))"

section \<open>Remote executor\<close>

definition vm_url :: "vm \<Rightarrow> args \<Rightarrow> string" where
  "vm_url vm args = name vm @ ''.'' @ vm_location vm @ ''.cloudapp.azure.com''"

definition vm_run_script :: "vm \<Rightarrow> string \<Rightarrow> args \<Rightarrow> bool \<Rightarrow> bool action" where
  "vm_run_script vm script args detach =
     bnd (subprocess_call
            [''ssh'', vm_user args @ ''@'' @ vm_url vm args, ''-i'', ssh_private_key_path args,
             ''-o'', ''StrictHostKeyChecking=no'',
             (if detach then ''screen -d -m '' @ script else script)])
       (\<lambda>result. done_with (result = 0))"

definition vm_make_exec :: "vm \<Rightarrow> string \<Rightarrow> args \<Rightarrow> bool action" where
  "vm_make_exec vm script args = vm_run_script vm (''chmod +x '' @ script) args False"

text \<open>
  \<^verbatim>\<open>
  def vm_upload_dir(vm, source_dir, dest_dir, args):
      ...
      command = ["scp", "-i", ssh_key_opt, "-o", strict_host_check_opt, "-r", source_opt, dest_opt]
      # First remove directory if it exists already
      remove_dir_script = "rm -r {:s}".format(dest_dir)
      vm_run_script(vm, remove_dir_script, args)
      result = subprocess.call(command, stderr=subprocess.STDOUT)
      return(result == 0)
  \<close>
\<close>

definition vm_upload_dir :: "vm \<Rightarrow> string \<Rightarrow> string \<Rightarrow> args \<Rightarrow> bool action" where
  "vm_upload_dir vm source_dir dest_dir args =
     bnd (vm_run_script vm (''rm -r '' @ dest_dir) args False) (\<lambda>_.
     bnd (subprocess_call
            [''scp'', ''-i'', ssh_private_key_path args, ''-o'', ''StrictHostKeyChecking=no'',
             ''-r'', source_dir, vm_url vm args @ '':'' @ dest_dir])
       (\<lambda>result. done_with (result = 0)))"

definition remove_ssh_host :: "vm \<Rightarrow> args \<Rightarrow> unit action" where
  "remove_ssh_host vm args =
     bnd (subprocess_call [''ssh-keygen'', ''-R'', vm_url vm args]) (\<lambda>result. done_with ())"

definition vm_test_ssh :: "vm \<Rightarrow> args \<Rightarrow> bool action" where
  "vm_test_ssh vm args = vm_run_script vm ''exit'' args False"

section \<open>Pool lifecycle orchestrator\<close>

definition create_vm :: "int \<Rightarrow> args \<Rightarrow> reply action" where
  "create_vm vm_number args =
     (let vm_name = name_from_number vm_number args;
          os_disk_name = vm_os_disk_name vm_name args in
      bnd (public_ip_exists vm_name args) (\<lambda>ip.
      bnd (if \<not> ip
           then bnd (warning ''{:%Hh%Mm%Ss}: Creating Public IP '{:s}'.'' [vm_name]) (\<lambda>_.
                bnd (create_public_ip vm_name args) (\<lambda>_. done_with ()))
           else warning ''{:%Hh%Mm%Ss}: Public IP '{:s}' already exists. Skipping create.''
                  [vm_name]) (\<lambda>_.
      bnd (nic_exists vm_name args) (\<lambda>nic.
      bnd (if \<not> nic
           then bnd (warning ''{:%Hh%Mm%Ss}: Creating NIC '{:s}'.'' [vm_name]) (\<lambda>_.
                bnd (create_nic vm_name args) (\<lambda>_. done_with ()))
           else warning ''{:%Hh%Mm%Ss}: NIC '{:s}' already exists. Skipping create.''
                  [vm_name]) (\<lambda>_.
      bnd (vm_os_disk_blob_exists vm_name args) (\<lambda>blob.
      bnd (if truthy blob
           then bnd (warning (''{:%Hh%Mm%Ss}: Deleting existing OS disk blob '{:s}'' @ [CHR 0x27])
                       [os_disk_name]) (\<lambda>_.
                delete_vm_os_disk_blob vm_name args)
           else done_with ()) (\<lambda>_.
      bnd (get_resource_group_location args) (\<lambda>loc.
      bnd (if no_wait args
           then warning ''{:%Hh%Mm%Ss}: Inititating creation of VM '{:s}'.'' [vm_name]
           else warning ''{:%Hh%Mm%Ss}: Creating VM '{:s}'.'' [vm_name]) (\<lambda>_.
      bnd (vm_pool_command [''vm'', ''create'']
             ([''--name='' @ vm_name,
               ''--ssh-key-value='' @ ssh_public_key_path args,
               ''--image='' @ vm_image args,
               ''--location='' @ format_field loc,
               ''--size='' @ vm_size args,
               ''--nics='' @ vm_name,
               ''--use-unmanaged-disk'',
               ''--storage-account='' @ resource_group args,
               ''--storage-container-name='' @ pool_os_container_name args,
               ''--os-disk-name='' @ os_disk_name,
               ''--admin-username='' @ vm_user args]
              @ (if no_wait args then [''--no-wait''] else [])) args) (\<lambda>result.
      bnd (if \<not> no_wait args
           then warning ''{:%Hh%Mm%Ss}: VM '{:s}' created in {:s}'' [vm_name]
           else done_with ()) (\<lambda>_.
      done_with result)))))))))))"

text \<open>
  \<^verbatim>\<open>
  def create_pool(args):
      # Check if resource group exists before progressing further
      if not resource_group_exists(args):
          if(args.force and args.location is not None):
              logger.warning("Creating resource group '{:s}'.".format(args.resource_group))
              create_resource_group(args)
          else:
              logger.warning("Resource group '{:s}' does not exist. Use --force ...")
              sys.exit()
      ...
  \<close>
\<close>

definition create_pool :: "args \<Rightarrow> unit action" where
  "create_pool args =
     bnd (resource_group_exists args) (\<lambda>ex.
     bnd (if \<not> ex
          then (if force args \<and> location args \<noteq> None
                then bnd (warning ''Creating resource group '{:s}'.'' [resource_group args]) (\<lambda>_.
                     bnd (create_resource_group args) (\<lambda>_. done_with ()))
                else bnd (warning ''Resource group '{:s}' does not exist. Use --force option with --location=<azure_region> to automatically create it.''
                            [resource_group args]) (\<lambda>_.
                     sys_exit None))
          else done_with ()) (\<lambda>_.
     bnd (get_vms args) (\<lambda>vms.
     if length vms > 0
     then bnd (print_vm_table vms) (\<lambda>_.
          warning (''VM pool already exists containing the above VMs. Use 'delete-pool' command ''
                   @ ''to remove this pool before creating a new pool.'') [])
     else
       bnd (warning ''{:%Hh%Mm%Ss}: Creating pool of {:d} VMs for Resource Group '{:s}' using image '{:s}'.''
              [str_of_int (num_vms args), resource_group args, vm_image args]) (\<lambda>_.
       bnd (warning ''{:%Hh%Mm%Ss}: Ensuring storage account exists for Resource Group '{:s}'.''
              [resource_group args]) (\<lambda>_.
       bnd (create_storage_account args) (\<lambda>_.
       bnd (warning ''{:%Hh%Mm%Ss}: Creating SSH keys for VM pool {:d} VMs for Resource Group '{:s}'.''
              [str_of_int (num_vms args), resource_group args]) (\<lambda>_.
       bnd (gen_ssh_keys args) (\<lambda>_.
       bnd (upload_ssh_keys args) (\<lambda>_.
       bnd (warning ''{:%Hh%Mm%Ss}: Creating pool data container '{:s}' if it doesn't already exist.''
              [pool_data_container_name args]) (\<lambda>_.
       bnd (create_pool_data_container args) (\<lambda>_.
       bnd (warning ''{:%Hh%Mm%Ss}: Ensuring virtual network exists for pool '{:s}'.''
              [resource_group args]) (\<lambda>_.
       bnd (create_virtual_network args) (\<lambda>_.
       bnd (for_each (\<lambda>i. create_vm i args) (map int [0 ..< nat (num_vms args)])) (\<lambda>result.
       bnd (get_vms args) (\<lambda>vms.
       bnd (warning ''{:%Hh%Mm%Ss}: Removing any existing SSH host entries for each VM.'' []) (\<lambda>_.
       bnd (for_each (\<lambda>vm. remove_ssh_host vm args) vms) (\<lambda>_.
       bnd (warning ''{:%Hh%Mm%Ss}: Testing SSH connection to each VM'' []) (\<lambda>_.
       bnd (for_each (\<lambda>vm. vm_test_ssh vm args) vms) (\<lambda>_.
       bnd (print_vm_table vms) (\<lambda>_.
       warning ''{:%Hh%Mm%Ss}: Pool of {:d} VMs for Resource Group '{:s}' created in {:s}.''
         [str_of_int (num_vms args), resource_group args]))))))))))))))))))))"

definition setup_vm :: "vm \<Rightarrow> args \<Rightarrow> unit action" where
  "setup_vm vm args =
     bnd (path_join_opt (pool_directory args) (setup_directory args)) (\<lambda>source_dir.
     (let dest_dir = setup_directory args;
          script = path_join dest_dir (setup_script args) in
      bnd (warning ''Copying setup directory '{:s}' to directory '{:s}' on VM '{:s}'.''
             [source_dir, dest_dir, name vm]) (\<lambda>_.
      bnd (vm_upload_dir vm source_dir dest_dir args) (\<lambda>success.
      bnd (if success
           then warning ''Successfully copied setup directory '{:s}' to directory '{:s}' on VM '{:s}'.''
                  [source_dir, dest_dir, name vm]
           else warning ''Failed to copy setup directory '{:s}' to directory '{:s}' on VM '{:s}'.''
                  [source_dir, dest_dir, name vm]) (\<lambda>_.
      bnd (vm_make_exec vm script args) (\<lambda>_.
      bnd (vm_run_script vm script args (no_wait args)) (\<lambda>success.
      if \<not> no_wait args
      then (if success
            then warning ''Successfully ran setup script '{:s}' on VM '{:s}'.'' [script, name vm]
            else warning ''Failed to run setup script '{:s}' on VM '{:s}'.'' [script, name vm])
      else done_with ())))))))"

definition setup_pool :: "args \<Rightarrow> unit action" where
  "setup_pool args =
     bnd (get_vms args) (\<lambda>vms.
     if length vms = 0
     then bnd (print_vm_table vms) (\<lambda>_.
          warning ''No VM pool exists. Use 'create-pool' command to create a new pool.'' [])
     else
       bnd (if no_wait args
            then warning ''{:%Hh%Mm%Ss}: Initiating setup for pool of {:d} VMs for Resource Group '{:s}'.''
                   [str_of_int (int (length vms)), resource_group args]
            else warning ''{:%Hh%Mm%Ss}: Setting up pool of {:d} VMs for Resource Group '{:s}'.''
                   [str_of_int (int (length vms)), resource_group args]) (\<lambda>_.
       bnd (for_each (\<lambda>vm. setup_vm vm args) vms) (\<lambda>result.
       if no_wait args
       then warning ''{:%Hh%Mm%Ss}: Setup initiated for pool of {:d} VMs for Resource Group '{:s}'. To check if setup is still running on a VM, SSH into it and run 'screen -R'.''
              [str_of_int (int (length vms)), resource_group args]
       else warning ''{:%Hh%Mm%Ss}: Setup completed for pool of {:d} VMs for Resource Group '{:s}' in {:s}.''
              [str_of_int (int (length vms)), resource_group args])))"





definition start_task_vm :: "vm \<Rightarrow> args \<Rightarrow> unit action" where
  "start_task_vm vm args =
     (let script = path_join (task_directory args) (task_script args) in
      bnd (vm_make_exec vm script args) (\<lambda>_.
      bnd (vm_run_script vm script args True) (\<lambda>success.
      if success
      then warning ''Successfully started script '{:s}' on VM '{:s}'.'' [script, name vm]
      else warning ''Failed to start script '{:s}' on VM '{:s}'.'' [script, name vm])))"

definition start_task :: "args \<Rightarrow> unit action" where
  "start_task args =
     bnd (get_vms args) (\<lambda>vms.
     if length vms = 0
     then bnd (print_vm_table vms) (\<lambda>_.
          warning ''No VM pool exists. Use 'create-pool' command to create a new pool.'' [])
     else
       bnd (warning ''{:%Hh%Mm%Ss}: Starting task on pool of {:d} VMs for Resource Group '{:s}'.''
              [str_of_int (int (length vms)), resource_group args]) (\<lambda>_.
       bnd (for_each (\<lambda>vm. start_task_vm vm args) vms) (\<lambda>result.
       warning ''{:%Hh%Mm%Ss}: Task started on pool of {:d} VMs for Resource Group '{:s}' in {:s}.''
         [str_of_int (int (length vms)), resource_group args])))"

text \<open>
  \<^verbatim>\<open>
  def start_vm(vm, args):
      vm_name = vm["name"]
      if(vm["powerState"] == "VM running"):
          logger.warning("VM '{0}' already running.".format(vm["name"]))
          return
      else:
          ...
          result = vm_pool_command(commands,options, args)
          ...
          return(result)
  \<close>
  \<open>shutdown_vm\<close> is the same with \<open>VM deallocated\<close> and \<open>vm deallocate\<close>.
\<close>

definition start_vm :: "vm \<Rightarrow> args \<Rightarrow> reply action" where
  "start_vm vm args =
     (if powerState vm = ''VM running''
      then bnd (warning ''VM '{0}' already running.'' [name vm]) (\<lambda>_. done_with RNone)
      else
        bnd (warning ''{:%Hh%Mm%Ss}: Starting VM '{:s}'.'' [name vm]) (\<lambda>_.
        bnd (vm_pool_command [''vm'', ''start'']
               ([''--name='' @ name vm] @ (if no_wait args then [''--no-wait''] else [])) args)
          (\<lambda>result.
        bnd (if \<not> no_wait args
             then warning ''{:%Hh%Mm%Ss}: VM '{:s}' started in {:s}'' [name vm]
             else done_with ()) (\<lambda>_.
        done_with result))))"


definition shutdown_vm :: "vm \<Rightarrow> args \<Rightarrow> reply action" where
  "shutdown_vm vm args =
     (if powerState vm = ''VM deallocated''
      then bnd (warning ''VM '{0}' already deallocated.'' [name vm]) (\<lambda>_. done_with RNone)
      else
        bnd (warning ''{:%Hh%Mm%Ss}: Deallocating VM '{:s}'.'' [name vm]) (\<lambda>_.
        bnd (vm_pool_command [''vm'', ''deallocate'']
               ([''--name='' @ name vm] @ (if no_wait args then [''--no-wait''] else [])) args)
          (\<lambda>result.
        bnd (if \<not> no_wait args
             then warning ''{:%Hh%Mm%Ss}: VM '{:s}' deallocated in {:s}'' [name vm]
             else done_with ()) (\<lambda>_.
        done_with result))))"

definition shutdown_all :: "args \<Rightarrow> reply list action" where
  "shutdown_all args =
     bnd (get_vms args) (\<lambda>vms.
     bnd (warning ''{:%Hh%Mm%Ss}: Stopping pool of {:d} VMs for Resource Group '{:s}'.''
            [str_of_int (int (length vms)), resource_group args]) (\<lambda>_.
     bnd (for_each (\<lambda>vm. shutdown_vm vm args) vms) (\<lambda>result.
     bnd (get_vms args) (\<lambda>vms'.
     bnd (print_vm_table vms') (\<lambda>_.
     bnd (if no_wait args
          then warning ''{:%Hh%Mm%Ss}: Shutdown initiated for pool of {:d} VMs for Resource Group '{:s}'. Run 'show-pool' command to check when operation is completed.''
                 [str_of_int (int (length vms)), resource_group args]
          else warning ''{:%Hh%Mm%Ss}: Pool of {:d} VMs for Resource Group '{:s}' stopped in {:s}.''
                 [str_of_int (int (length vms)), resource_group args]) (\<lambda>_.
     done_with result))))))"

definition delete_vm :: "vm \<Rightarrow> args \<Rightarrow> bool \<Rightarrow> reply action" where
  "delete_vm vm args frc =
     bnd (warning ''{:%Hh%Mm%Ss}: Deleting VM '{:s}'.'' [name vm]) (\<lambda>_.
     bnd (vm_pool_command [''vm'', ''delete'']
            ([''--name='' @ name vm] @ (if frc then [''--yes''] else [])) args) (\<lambda>result.
     bnd (warning ''{:%Hh%Mm%Ss}: Deleting NIC '{:s}'.'' [name vm]) (\<lambda>_.
     bnd (vm_pool_command [''network'', ''nic'', ''delete''] [''--name='' @ name vm] args) (\<lambda>_.
     bnd (warning ''{:%Hh%Mm%Ss}: Deleting Public IP '{:s}'.'' [name vm]) (\<lambda>_.
     bnd (vm_pool_command [''network'', ''public-ip'', ''delete''] [''--name='' @ name vm] args)
       (\<lambda>_.
     bnd (warning ''{:%Hh%Mm%Ss}: Deleting OS disk blob '{:s}'.'' [name vm]) (\<lambda>_.
     bnd (delete_vm_os_disk_blob (name vm) args) (\<lambda>_.
     bnd (warning ''{:%Hh%Mm%Ss}: VM '{:s}' deleted in {:s}'' [name vm]) (\<lambda>_.
     done_with result)))))))))"

text \<open>
  \<^verbatim>\<open>
  def delete_pool(args):
      vms = get_vms(args)
      print_vm_table(vms, args)
      num_vms = len(vms)
      if(num_vms == 0):
          logger.warning("No VMs in pool.")
          return
      resp = get_input("Are you sure you want to delete all {0} of the above VMs? (y/n):".format(num_vms))
      if(resp == "y"):
          ...
          result = [delete_vm(vm, args, force=True) for vm in vms]
          ...
          delete_pool_os_container(args)
          vms = get_vms(args)
          print_vm_table(vms, args)
          ...
          return(result)
      else:
          logger.warning("Pool delete cancelled.")
  \<close>
  The result is \<open>None\<close> on the two paths that delete nothing.
\<close>

definition delete_pool :: "args \<Rightarrow> reply list option action" where
  "delete_pool args =
     bnd (get_vms args) (\<lambda>vms.
     bnd (print_vm_table vms) (\<lambda>_.
     if length vms = 0
     then bnd (warning ''No VMs in pool.'' []) (\<lambda>_. done_with None)
     else
       bnd (get_input ''Are you sure you want to delete all {0} of the above VMs? (y/n):''
              [str_of_int (int (length vms))]) (\<lambda>resp.
       if resp = ''y''
       then
         bnd (warning ''{:%Hh%Mm%Ss}: Deleting pool of {:d} VMs for Resource Group '{:s}'.''
                [str_of_int (int (length vms)), resource_group args]) (\<lambda>_.
         bnd (for_each (\<lambda>vm. delete_vm vm args True) vms) (\<lambda>result.
         bnd (warning ''{:%Hh%Mm%Ss}: Deleting VM pool OS disk storage container '{:s}'.''
                [pool_os_container_name args]) (\<lambda>_.
         bnd (delete_pool_os_container args) (\<lambda>_.
         bnd (get_vms args) (\<lambda>vms'.
         bnd (print_vm_table vms') (\<lambda>_.
         bnd (warning ''{:%Hh%Mm%Ss}: Pool of {:d} VMs for Resource Group '{:s}' deleted in {:s}.''
                [str_of_int (int (length vms)), resource_group args]) (\<lambda>_.
         done_with (Some result))))))))
       else bnd (warning ''Pool delete cancelled.'' []) (\<lambda>_. done_with None))))"

section \<open>Reading a trace\<close>

text \<open>The subprocess command lines of a trace, and its control-plane calls, in order.\<close>

fun subs :: "event list \<Rightarrow> string list list" where
  "subs [] = []"
| "subs (Sub c # es) = c # subs es"
| "subs (e # es) = subs es"

fun azs :: "event list \<Rightarrow> string list list" where
  "azs [] = []"
| "azs (Az c # es) = c # azs es"
| "azs (e # es) = azs es"

text \<open>
  The command lines the remote executor builds: \<open>ssh_command\<close> is the list
  \<open>command\<close> of \<open>vm_run_script\<close>, \<open>scp_command\<close> that of \<open>vm_upload_dir\<close>. The
  next four are the subprocess commands of one VM's step in \<open>setup-pool\<close>,
  \<open>deploy-task\<close>, \<open>start-task\<close> and \<open>kill-task\<close>, in the order the step runs them;
  \<open>vm_list_command\<close> is the control-plane call of \<open>get_vms\<close>.
\<close>

definition ssh_command :: "vm \<Rightarrow> args \<Rightarrow> string \<Rightarrow> string list" where
  "ssh_command vm args script_opt =
     [''ssh'', vm_user args @ ''@'' @ vm_url vm args, ''-i'', ssh_private_key_path args,
      ''-o'', ''StrictHostKeyChecking=no'', script_opt]"

definition scp_command :: "vm \<Rightarrow> args \<Rightarrow> string \<Rightarrow> string \<Rightarrow> string list" where
  "scp_command vm args source_dir dest_dir =
     [''scp'', ''-i'', ssh_private_key_path args, ''-o'', ''StrictHostKeyChecking=no'',
      ''-r'', source_dir, vm_url vm args @ '':'' @ dest_dir]"

definition setup_commands :: "vm \<Rightarrow> args \<Rightarrow> string \<Rightarrow> string list list" where
  "setup_commands vm args d =
     [ssh_command vm args (''rm -r '' @ setup_directory args),
      scp_command vm args (path_join d (setup_directory args)) (setup_directory args),
      ssh_command vm args (''chmod +x '' @ path_join (setup_directory args) (setup_script args)),
      ssh_command vm args
        (if no_wait args
         then ''screen -d -m '' @ path_join (setup_directory args) (setup_script args)
         else path_join (setup_directory args) (setup_script args))]"




definition vm_list_command :: "args \<Rightarrow> string list" where
  "vm_list_command args =
     [''vm'', ''list'', ''--show-details'', ''--resource-group='' @ resource_group args]"

text \<open>
  The file the token is written to (\<open>file_name\<close> and \<open>file_path\<close> in
  \<open>pool_data_container_sas\<close>) and the control-plane call of
  \<open>pool_storage_account_connection_string\<close>.
\<close>

definition sas_file_name :: "args \<Rightarrow> string" where
  "sas_file_name args = container_sas_filename (pool_data_container_name args) args"

definition sas_file_path :: "args \<Rightarrow> string" where
  "sas_file_path args = path_join (vm_secrets_directory args) (sas_file_name args)"


text \<open>
  The spec's words for the expiry, to compare the code with: a time "truncated to minute
  precision" has its seconds and microseconds set to zero, and times are compared as
  instants, counted in microseconds.
\<close>

definition truncate_minute :: "datetime \<Rightarrow> datetime" where
  "truncate_minute dt = dt\<lparr>second := 0, microsecond := 0\<rparr>"

definition instant_us :: "datetime \<Rightarrow> int" where
  "instant_us dt =
     (((ordinal dt * 24 + int (hour dt)) * 60 + int (minute dt)) * 60 + int (second dt)) * 1000000
       + int (microsecond dt)"

section \<open>Concrete runs\<close>

text \<open>
  The command line \<open>az-vm-pool.py <pool> <command> -n 2 -s Standard_D1 -d pooldir\<close>, with
  argparse's defaults for the rest.
\<close>

definition demo_args :: "string \<Rightarrow> args" where
  "demo_args pool =
     main_args pool 2 ''Standard_D1'' 14 (Some ''pooldir'') False
       ''canonical:UbuntuServer:16.04-LTS:latest'' False None"

text \<open>
  A control plane that answers every call and lists the given VMs, a shell whose commands
  all succeed, an operator who types \<open>n\<close>, and the clock at 2017-03-01 07:05:59.
\<close>

definition quiet_world :: "vm list \<Rightarrow> world" where
  "quiet_world vms =
     \<lparr> az = (\<lambda>tr cmd.
          if take 2 cmd = [''vm'', ''list''] then Inr (RVms vms)
          else if take 2 cmd = [''group'', ''show'']
            then Inr (RDict [(''location'', FStr ''westeurope'')])
          else if take 3 cmd = [''storage'', ''account'', ''show-connection-string'']
            then Inr (RDict [(''connectionString'', FStr ''AccountName=demo'')])
          else if take 3 cmd = [''storage'', ''container'', ''exists'']
            then Inr (RDict [(''exists'', FBool True)])
          else if take 3 cmd = [''storage'', ''container'', ''generate-sas'']
            then Inr (RStr ''sig=abc'')
          else Inr RNone),
       shell = (\<lambda>tr cmd. 0),
       typed = (\<lambda>tr. ''n''),
       utcnow = (\<lambda>tr. \<lparr>ordinal = 736389, hour = 7, minute = 5, second = 59,
                            microsecond = 3\<rparr>),
       path_exists = (\<lambda>tr p. True) \<rparr>"

definition demo_vm :: "string \<Rightarrow> string \<Rightarrow> vm" where
  "demo_vm n st = \<lparr> name = n, vm_location = ''westeurope'', vmSize = ''Standard_D1'',
     provisioningState = ''Succeeded'', powerState = st \<rparr>"

text \<open>A subscription in which the resource group does not exist: every query answers \<open>None\<close>.\<close>

definition absent_world :: world where
  "absent_world =
     \<lparr> az = (\<lambda>tr cmd. Inr RNone),
       shell = (\<lambda>tr cmd. 0),
       typed = (\<lambda>tr. ''n''),
       utcnow = (\<lambda>tr. \<lparr>ordinal = 736389, hour = 7, minute = 5, second = 59,
                            microsecond = 3\<rparr>),
       path_exists = (\<lambda>tr p. True) \<rparr>"



section \<open>Properties of the naming scheme\<close>

lemma split_on_no_sep: "c \<notin> set s \<Longrightarrow> split_on c s = [s]"
  by (induction s) auto

lemma split_on_append: "c \<notin> set a \<Longrightarrow> split_on c (a @ c # b) = a # split_on c b"
  by (induction a) auto

lemma is_digit_digit_char: "d < 10 \<Longrightarrow> is_digit (digit_char d)"
  by (simp add: is_digit_def digit_char_def)

lemma digit_val_digit_char: "d < 10 \<Longrightarrow> digit_val (digit_char d) = d"
  by (simp add: digit_val_def digit_char_def)

lemma digits_of_nat_digits: "\<forall>c \<in> set (digits_of_nat n). is_digit c"
proof (induction n rule: digits_of_nat.induct)
  case (1 n)
  show ?case
  proof (cases "n < 10")
    case True
    then show ?thesis by (subst digits_of_nat.simps) (simp add: is_digit_digit_char)
  next
    case False
    with "1" show ?thesis by (subst digits_of_nat.simps) (simp add: is_digit_digit_char)
  qed
qed

lemma digits_of_nat_nonempty: "digits_of_nat n \<noteq> []"
  by (subst digits_of_nat.simps) simp

lemma digits_value_digits_of_nat: "digits_value (digits_of_nat n) = n"
proof (induction n rule: digits_of_nat.induct)
  case (1 n)
  show ?case
  proof (cases "n < 10")
    case True
    then show ?thesis
      by (subst digits_of_nat.simps)
         (simp add: digits_value_def is_digit_digit_char digit_val_digit_char)
  next
    case False
    have all: "filter is_digit (digits_of_nat (n div 10)) = digits_of_nat (n div 10)"
      using digits_of_nat_digits [of "n div 10"] by (simp add: filter_id_conv)
    from False "1" have "digits_value (digits_of_nat (n div 10)) = n div 10" by simp
    with False all show ?thesis
      by (subst digits_of_nat.simps)
         (simp add: digits_value_def is_digit_digit_char digit_val_digit_char)
  qed
qed

lemma underscore_not_digit: "\<not> is_digit CHR ''_''"
  by (simp add: is_digit_def)

lemma digits_ok_all_digits: "s \<noteq> [] \<Longrightarrow> \<forall>c \<in> set s. is_digit c \<Longrightarrow> digits_ok s"
proof (induction s rule: digits_ok.induct)
  case (3 c d r)
  then show ?case using underscore_not_digit by auto
qed simp_all

lemma digit_not_space: "is_digit c \<Longrightarrow> \<not> is_space c"
  by (auto simp: is_digit_def is_space_def)

lemma digit_not_sign: "is_digit c \<Longrightarrow> c \<noteq> CHR ''-'' \<and> c \<noteq> CHR ''+''"
  by (auto simp: is_digit_def)

lemma strip_digits: "\<forall>c \<in> set s. is_digit c \<Longrightarrow> strip s = s"
proof -
  assume a: "\<forall>c \<in> set s. is_digit c"
  then have "dropWhile is_space s = s"
    by (cases s) (auto simp: digit_not_space)
  moreover from a have "dropWhile is_space (rev s) = rev s"
    by (cases "rev s") (auto simp: digit_not_space dest: arg_cong [where f = set])
  ultimately show ?thesis by (simp add: strip_def)
qed

lemma py_int_digits_of_nat: "py_int (digits_of_nat n) = Inr (int n)"
proof -
  let ?s = "digits_of_nat n"
  have d: "\<forall>c \<in> set ?s. is_digit c" by (rule digits_of_nat_digits)
  have ne: "?s \<noteq> []" by (rule digits_of_nat_nonempty)
  then obtain c r where s: "?s = c # r" by (cases ?s) auto
  with d have "is_digit c" by simp
  then have c: "c \<noteq> CHR ''-''" "c \<noteq> CHR ''+''" using digit_not_sign by auto
  have "strip ?s = ?s" using d by (rule strip_digits)
  moreover have "digits_ok ?s" using ne d by (rule digits_ok_all_digits)
  ultimately show ?thesis
    using c s digits_value_digits_of_nat [of n] by (simp add: py_int_def Let_def)
qed

lemma digits_no_hyphen: "CHR ''-'' \<notin> set (digits_of_nat n)"
  using digits_of_nat_digits [of n] digit_not_sign by blast

lemma str_of_int_small:
  "str_of_int 0 = ''0''" "str_of_int 1 = ''1''" "str_of_int 2 = ''2''" "str_of_int 3 = ''3''"
  by code_simp+

text \<open>
  C1 (as amended). For every pool name that does not contain the separator \<open>-\<close> and every
  index \<open>i \<ge> 0\<close>, the name built by \<open>name_from_number\<close> is read back by
  \<open>number_from_name\<close> as \<open>i\<close>.
\<close>

theorem number_from_name_roundtrip:
  assumes "CHR ''-'' \<notin> set (resource_group args)" and "0 \<le> i"
  shows "number_from_name (name_from_number i args) = Inr i"
proof -
  from assms(2) have str: "str_of_int i = digits_of_nat (nat i)"
    by (simp add: str_of_int_def)
  have "split_on CHR ''-'' (resource_group args @ CHR ''-'' # digits_of_nat (nat i))
          = [resource_group args, digits_of_nat (nat i)]"
    using assms(1) by (simp add: split_on_append split_on_no_sep digits_no_hyphen)
  then show ?thesis
    using assms(2) by (simp add: number_from_name_def name_from_number_def str py_int_digits_of_nat)
qed

theorem number_from_name_roundtrip_witness:
  "CHR ''-'' \<notin> set (resource_group (demo_args ''demo'')) \<and> (0::int) \<le> 3 \<and>
   number_from_name (name_from_number 3 (demo_args ''demo'')) = Inr 3"
  using number_from_name_roundtrip [of "demo_args ''demo''" 3]
  by (simp add: demo_args_def main_args_def)

text \<open>
  C1 (as stated) fails for a pool name that itself contains \<open>-\<close>: the name
  \<open>my-pool-0\<close> splits into three parts and the unpacking raises.
\<close>

theorem number_from_name_hyphen_counterexample:
  "number_from_name (name_from_number 0 (demo_args ''my-pool'')) = Inl ValueError"
  by code_simp

text \<open>
  C2. \<open>next_vm_name\<close> is not the smallest free index. For an empty pool it answers index 1,
  whatever the helper is; with \<open>number_from_name\<close> as helper it answers 4 for the indices
  \<open>{0, 1, 2}\<close>; with the helper unbound, as in the source, any populated pool raises.
\<close>

theorem next_vm_name_off_by_one:
  "next_vm_name unbound_name [] (demo_args ''demo'') = Inr ''demo-1'' \<and>
   next_vm_name number_from_name [] (demo_args ''demo'') = Inr ''demo-1'' \<and>
   next_vm_name number_from_name [''demo-0'', ''demo-1'', ''demo-2''] (demo_args ''demo'')
     = Inr ''demo-4'' \<and>
   next_vm_name unbound_name [''demo-0'', ''demo-1'', ''demo-2''] (demo_args ''demo'')
     = Inl NameError"
  by code_simp

section \<open>Properties of the remote executor and the orchestrator\<close>


text \<open>
  C6. For a VM whose power state is already \<open>VM running\<close>, \<open>start_vm\<close> only logs and
  returns \<open>None\<close>: no control-plane call is made. Likewise \<open>shutdown_vm\<close> for a VM that
  is already \<open>VM deallocated\<close>.
\<close>

theorem start_stop_skip_in_target_state:
  "(powerState vm = ''VM running'' \<longrightarrow>
      start_vm vm args w tr =
        (Return RNone, tr @ [Warn ''VM '{0}' already running.'' [name vm]])) \<and>
   (powerState vm' = ''VM deallocated'' \<longrightarrow>
      shutdown_vm vm' args w tr =
        (Return RNone, tr @ [Warn ''VM '{0}' already deallocated.'' [name vm']]))"
  by (simp add: start_vm_def shutdown_vm_def bnd_def warning_def done_with_def)

theorem start_stop_skip_in_target_state_witness:
  "powerState (demo_vm ''demo-0'' ''VM running'') = ''VM running'' \<and>
   start_vm (demo_vm ''demo-0'' ''VM running'') (demo_args ''demo'') (quiet_world []) []
     = (Return RNone, [Warn ''VM '{0}' already running.'' [''demo-0'']]) \<and>
   powerState (demo_vm ''demo-1'' ''VM deallocated'') = ''VM deallocated'' \<and>
   shutdown_vm (demo_vm ''demo-1'' ''VM deallocated'') (demo_args ''demo'') (quiet_world []) []
     = (Return RNone, [Warn ''VM '{0}' already deallocated.'' [''demo-1'']])"
  using start_stop_skip_in_target_state
          [of "demo_vm ''demo-0'' ''VM running''" "demo_args ''demo''" "quiet_world []" "[]"
              "demo_vm ''demo-1'' ''VM deallocated''"]
  by (simp add: demo_vm_def)

text \<open>
  C8. When the pool lists no VM, \<open>delete_pool\<close> lists the pool, prints the empty table,
  logs \<open>No VMs in pool.\<close> and returns: no deletion of a VM, NIC, public address or disk
  blob, and no deletion of the OS-disk container.
\<close>

theorem delete_pool_empty:
  "az w tr [''vm'', ''list'', ''--show-details'', ''--resource-group='' @ resource_group args]
     = Inr (RVms []) \<Longrightarrow>
   delete_pool args w tr =
     (Return None,
      tr @ [Az [''vm'', ''list'', ''--show-details'',
                ''--resource-group='' @ resource_group args],
            Table [], Warn ''No VMs in pool.'' []])"
  by (simp add: delete_pool_def get_vms_def vm_pool_command_def execute_def bnd_def
        print_vm_table_def warning_def done_with_def)

theorem delete_pool_empty_witness:
  "az (quiet_world []) []
      [''vm'', ''list'', ''--show-details'',
       ''--resource-group='' @ resource_group (demo_args ''demo'')] = Inr (RVms []) \<and>
   delete_pool (demo_args ''demo'') (quiet_world []) [] =
     (Return None,
      [Az [''vm'', ''list'', ''--show-details'', ''--resource-group=demo''],
       Table [], Warn ''No VMs in pool.'' []])"
  using delete_pool_empty [of "quiet_world []" "[]" "demo_args ''demo''"]
  by (simp add: quiet_world_def demo_args_def main_args_def)

text \<open>
  C9. When the pool lists at least one VM and the operator answers the confirmation prompt
  with anything but \<open>y\<close>, \<open>delete_pool\<close> lists the pool, prints the table, prompts, logs
  \<open>Pool delete cancelled.\<close> and returns: nothing is deleted.
\<close>

theorem delete_pool_declined:
  "az w tr [''vm'', ''list'', ''--show-details'', ''--resource-group='' @ resource_group args]
     = Inr (RVms vms) \<Longrightarrow>
   vms \<noteq> [] \<Longrightarrow>
   typed w (tr @ [Az [''vm'', ''list'', ''--show-details'',
                      ''--resource-group='' @ resource_group args], Table vms]) \<noteq> ''y'' \<Longrightarrow>
   delete_pool args w tr =
     (Return None,
      tr @ [Az [''vm'', ''list'', ''--show-details'',
                ''--resource-group='' @ resource_group args],
            Table vms,
            Prompt ''Are you sure you want to delete all {0} of the above VMs? (y/n):''
              [str_of_int (int (length vms))],
            Warn ''Pool delete cancelled.'' []])"
  by (simp add: delete_pool_def get_vms_def vm_pool_command_def execute_def bnd_def
        print_vm_table_def warning_def done_with_def get_input_def)

theorem delete_pool_declined_witness:
  "az (quiet_world [demo_vm ''demo-0'' ''VM running'']) []
      [''vm'', ''list'', ''--show-details'',
       ''--resource-group='' @ resource_group (demo_args ''demo'')]
     = Inr (RVms [demo_vm ''demo-0'' ''VM running'']) \<and>
   [demo_vm ''demo-0'' ''VM running''] \<noteq> [] \<and>
   typed (quiet_world [demo_vm ''demo-0'' ''VM running''])
     ([] @ [Az [''vm'', ''list'', ''--show-details'',
               ''--resource-group='' @ resource_group (demo_args ''demo'')],
            Table [demo_vm ''demo-0'' ''VM running'']]) \<noteq> ''y'' \<and>
   delete_pool (demo_args ''demo'') (quiet_world [demo_vm ''demo-0'' ''VM running'']) [] =
     (Return None,
      [Az [''vm'', ''list'', ''--show-details'', ''--resource-group=demo''],
       Table [demo_vm ''demo-0'' ''VM running''],
       Prompt ''Are you sure you want to delete all {0} of the above VMs? (y/n):'' [''1''],
       Warn ''Pool delete cancelled.'' []])"
  using delete_pool_declined [of "quiet_world [demo_vm ''demo-0'' ''VM running'']" "[]"
          "demo_args ''demo''" "[demo_vm ''demo-0'' ''VM running'']"]
  by (simp add: quiet_world_def demo_args_def main_args_def str_of_int_small)

text \<open>
  C10. \<open>create-pool\<close> on a resource group that does not exist, without \<open>--force\<close>: the
  only call is the query \<open>group show\<close>, the failure is logged, and the process ends through
  \<open>sys.exit()\<close> without an argument, that is with status 0 (\<open>CLEAN_EXIT\<close>), not with
  \<open>ERROR_EXIT\<close>.
\<close>

theorem create_pool_absent_group_exits_zero:
  "create_pool (demo_args ''demo'') absent_world [] =
     (Exit None,
      [Az [''group'', ''show'', ''--name=demo''],
       Warn ''Resource group '{:s}' does not exist. Use --force option with --location=<azure_region> to automatically create it.''
         [''demo'']]) \<and>
   exit_status None = CLEAN_EXIT \<and> exit_status None \<noteq> ERROR_EXIT"
  by (simp add: create_pool_def resource_group_exists_def execute_def bnd_def warning_def
        done_with_def sys_exit_def absent_world_def demo_args_def main_args_def
        exit_status_def CLEAN_EXIT_def ERROR_EXIT_def)

section \<open>Fan-out over the VMs of a pool\<close>

lemma subs_append: "subs (a @ b) = subs a @ subs b"
  by (induction a rule: subs.induct) simp_all

lemma azs_append: "azs (a @ b) = azs a @ azs b"
  by (induction a rule: azs.induct) simp_all

lemma vm_run_script_run:
  "vm_run_script vm script args detach w tr =
     (Return (shell w tr (ssh_command vm args (if detach then ''screen -d -m '' @ script else script)) = 0),
      tr @ [Sub (ssh_command vm args (if detach then ''screen -d -m '' @ script else script))])"
  by (simp add: vm_run_script_def ssh_command_def bnd_def subprocess_call_def done_with_def)

lemma vm_upload_dir_run:
  "\<exists>ok. vm_upload_dir vm source_dir dest_dir args w tr =
     (Return ok,
      tr @ [Sub (ssh_command vm args (''rm -r '' @ dest_dir)),
            Sub (scp_command vm args source_dir dest_dir)])"
  by (simp add: vm_upload_dir_def vm_run_script_run scp_command_def bnd_def subprocess_call_def
        done_with_def)




lemma setup_vm_run:
  assumes "pool_directory args = Some d"
  shows "\<exists>tr'. setup_vm vm args w tr = (Return (), tr') \<and>
         subs tr' = subs tr @ setup_commands vm args d \<and> azs tr' = azs tr"
proof -
  let ?t1 = "tr @ [Warn ''Copying setup directory '{:s}' to directory '{:s}' on VM '{:s}'.''
                 [path_join d (setup_directory args), setup_directory args, name vm]]"
  obtain ok where up: "vm_upload_dir vm (path_join d (setup_directory args)) (setup_directory args) args w ?t1
     = (Return ok, ?t1 @
         [Sub (ssh_command vm args (''rm -r '' @ setup_directory args)),
          Sub (scp_command vm args (path_join d (setup_directory args)) (setup_directory args))])"
    using vm_upload_dir_run by blast
  show ?thesis
    using assms up
    by (simp add: setup_vm_def path_join_opt_def vm_make_exec_def vm_run_script_run bnd_def
          warning_def done_with_def setup_commands_def subs_append azs_append Let_def)
qed

lemma for_each_run:
  assumes step: "\<And>x tr. \<exists>y tr'. f x w tr = (Return y, tr') \<and>
                    subs tr' = subs tr @ cmds x \<and> azs tr' = azs tr"
  shows "\<exists>ys tr'. for_each f xs w tr = (Return ys, tr') \<and> length ys = length xs \<and>
           subs tr' = subs tr @ concat (map cmds xs) \<and> azs tr' = azs tr"
proof (induction xs arbitrary: tr)
  case Nil
  show ?case by (simp add: done_with_def)
next
  case (Cons x xs)
  obtain y t1 where 1: "f x w tr = (Return y, t1)" "subs t1 = subs tr @ cmds x" "azs t1 = azs tr"
    using step by blast
  obtain ys t2 where 2: "for_each f xs w t1 = (Return ys, t2)" "length ys = length xs"
      "subs t2 = subs t1 @ concat (map cmds xs)" "azs t2 = azs t1"
    using Cons.IH by blast
  from 1 2 show ?case by (simp add: bnd_def done_with_def)
qed

lemma get_vms_run:
  assumes "az w tr (vm_list_command args) = Inr (RVms vms)"
  shows "get_vms args w tr = (Return vms, tr @ [Az (vm_list_command args)])"
  using assms
  by (simp add: get_vms_def vm_pool_command_def execute_def bnd_def done_with_def
        vm_list_command_def)


lemma setup_pool_run:
  assumes "az w tr (vm_list_command args) = Inr (RVms vms)" and "pool_directory args = Some d"
  shows "\<exists>tr'. setup_pool args w tr = (Return (), tr') \<and>
           subs tr' = subs tr @ concat (map (\<lambda>vm. setup_commands vm args d) vms) \<and>
           azs tr' = azs tr @ [vm_list_command args]"
proof (cases "vms = []")
  case True
  with assms show ?thesis
    by (simp add: setup_pool_def get_vms_run bnd_def print_vm_table_def warning_def
          subs_append azs_append)
next
  case False
  have step: "\<And>x t. \<exists>y tr'. setup_vm x args w t = (Return y, tr') \<and>
                    subs tr' = subs t @ setup_commands x args d \<and> azs tr' = azs t"
    using setup_vm_run [OF assms(2)] by blast
  have fe: "\<And>t. \<exists>ys t2. for_each (\<lambda>vm. setup_vm vm args) vms w t = (Return ys, t2) \<and>
      subs t2 = subs t @ concat (map (\<lambda>vm. setup_commands vm args d) vms) \<and> azs t2 = azs t"
    using for_each_run [where f = "\<lambda>vm. setup_vm vm args" and w = w
        and cmds = "\<lambda>vm. setup_commands vm args d" and xs = vms, OF step] by blast
  show ?thesis
  proof (cases "no_wait args")
    case True
    let ?t1 = "tr @ [Az (vm_list_command args),
       Warn ''{:%Hh%Mm%Ss}: Initiating setup for pool of {:d} VMs for Resource Group '{:s}'.''
                   [str_of_int (int (length vms)), resource_group args]]"
    obtain ys t2 where "for_each (\<lambda>vm. setup_vm vm args) vms w ?t1 = (Return ys, t2)"
      "subs t2 = subs ?t1 @ concat (map (\<lambda>vm. setup_commands vm args d) vms)" "azs t2 = azs ?t1"
      using fe by blast
    with assms False True show ?thesis
      by (simp add: setup_pool_def get_vms_run bnd_def warning_def subs_append azs_append)
  next
    case nw: False
    let ?t1 = "tr @ [Az (vm_list_command args),
       Warn ''{:%Hh%Mm%Ss}: Setting up pool of {:d} VMs for Resource Group '{:s}'.''
                   [str_of_int (int (length vms)), resource_group args]]"
    obtain ys t2 where "for_each (\<lambda>vm. setup_vm vm args) vms w ?t1 = (Return ys, t2)"
      "subs t2 = subs ?t1 @ concat (map (\<lambda>vm. setup_commands vm args d) vms)" "azs t2 = azs ?t1"
      using fe by blast
    with assms False nw show ?thesis
      by (simp add: setup_pool_def get_vms_run bnd_def warning_def subs_append azs_append)
  qed
qed







section \<open>Issuing an access token\<close>















lemma demo_sas_names:
  "sas_file_name (demo_args ''demo'') = ''azure_vm_pool_demo_sas_storage_container_data.txt''"
  "sas_file_path (demo_args ''demo'')
     = ''secrets/azure_vm_pool_demo_sas_storage_container_data.txt''"
  by (simp_all add: sas_file_name_def sas_file_path_def container_sas_filename_def
        pool_data_container_name_def path_join_def demo_args_def main_args_def)

lemma zero_ttl_expires_at_once:
  "instant_us (truncate_minute (now\<lparr>ordinal := ordinal now + 0\<rparr>)) \<le> instant_us now"
  by (simp add: instant_us_def truncate_minute_def)



end
